theory Spec2Isabelle
  imports Main
begin

section \<open>The signaling server of \<open>src/index.js\<close>\<close>

text \<open>
  The server keeps one process-wide object \<open>connections\<close> (the registry) and reacts to
  three events of every accepted WebSocket connection: \<open>message\<close>, \<open>close\<close> and
  \<open>error\<close>. Each handler is modelled as a function from the registry before the event
  to either the exception that leaves the handler uncaught, or the registry after the
  event together with the calls the handler made on connections (\<open>close()\<close> and
  \<open>sendUTF(JSON.stringify(v))\<close>), in order. Lines written by \<open>log\<close> go to the console
  only and are not part of the model; in every handler an exception, when there is one,
  is raised before the first call on a connection and before the registry is touched.
\<close>

subsection \<open>Values\<close>

text \<open>
  A string is the list of its UTF-16 code units, the unit that \<open>slice\<close> counts; one
  \<open>char\<close> stands for one code unit.

  \<open>json\<close> is what \<open>JSON.parse\<close> returns. A number is kept as the text JavaScript's
  number-to-string conversion gives for it (\<open>0\<close> and \<open>-0\<close> both give \<open>0\<close>), which is
  all the server ever does with a number: it tests it for truth and uses it as a
  property key. An object is the list of its own properties.
\<close>

datatype json =
    JNull
  | JBool bool
  | JNumber string
  | JString string
  | JArray "json list"
  | JObject "(string \<times> json) list"

text \<open>The exceptions the handlers can raise.\<close>

datatype fault = SyntaxError | TypeError

text \<open>A connection object is known by its identity.\<close>

type_synonym connection = nat

text \<open>
  The calls a handler makes on connection objects: \<open>c.close()\<close> and
  \<open>c.sendUTF(JSON.stringify(v))\<close>. The text sent is kept as the value \<open>v\<close> handed to
  \<open>JSON.stringify\<close>, which cannot raise on a value \<open>JSON.parse\<close> returned or on the
  error response the server builds.
\<close>

datatype effect = CloseCall connection | SendUTF connection json

text \<open>
  An inbound message is binary or text (\<open>message.type === 'utf8'\<close>); a text is
  represented by what \<open>JSON.parse\<close> makes of \<open>message.utf8Data\<close>: a \<open>SyntaxError\<close>,
  or a value.
\<close>

datatype utf8Data = Unparseable | Parses json

datatype message = Binary | Utf8 utf8Data

text \<open>
  Reading the property \<open>name\<close> of a value that is neither \<open>null\<close> nor \<open>undefined\<close>,
  for a \<open>name\<close> that no built-in prototype defines (the server reads \<open>type\<close>,
  \<open>payload\<close>, \<open>id\<close>, \<open>source\<close> and \<open>target\<close>): an object gives its own property,
  everything else \<open>undefined\<close> (\<open>None\<close>).
\<close>

fun get_prop :: "json \<Rightarrow> string \<Rightarrow> json option" where
  "get_prop (JObject ps) name = map_of ps name"
| "get_prop _ name = None"

text \<open>JavaScript's truth test, as \<open>!payload\<close> applies it.\<close>

fun truthy :: "json \<Rightarrow> bool" where
  "truthy JNull = False"
| "truthy (JBool b) = b"
| "truthy (JNumber s) = (s \<noteq> ''0'')"
| "truthy (JString s) = (s \<noteq> [])"
| "truthy (JArray xs) = True"
| "truthy (JObject ps) = True"

fun join_comma :: "string list \<Rightarrow> string" where
  "join_comma [] = []"
| "join_comma [s] = s"
| "join_comma (s # t # ss) = s @ '','' @ join_comma (t # ss)"

text \<open>
  Conversion to a string, as a property key \<open>connections[v]\<close> and a template literal
  need it. An array joins its elements with commas, \<open>null\<close> elements giving the empty
  string. An object parsed from JSON answers \<open>[object Object]\<close> through
  \<open>Object.prototype.toString\<close>, unless it has an own property \<open>toString\<close>: that one is
  not callable, \<open>valueOf\<close> then gives no primitive either, and the conversion raises a
  \<open>TypeError\<close>.
\<close>

fun ToString :: "json \<Rightarrow> fault + string"
  and ToStrings :: "json list \<Rightarrow> fault + string list" where
  "ToString JNull = Inr ''null''"
| "ToString (JBool b) = Inr (if b then ''true'' else ''false'')"
| "ToString (JNumber s) = Inr s"
| "ToString (JString s) = Inr s"
| "ToString (JArray xs) =
     (case ToStrings xs of Inl e \<Rightarrow> Inl e | Inr ss \<Rightarrow> Inr (join_comma ss))"
| "ToString (JObject ps) =
     (if ''toString'' \<in> fst ` set ps then Inl TypeError else Inr ''[object Object]'')"
| "ToStrings [] = Inr []"
| "ToStrings (x # xs) =
     (case (if x = JNull then Inr [] else ToString x) of
        Inl e \<Rightarrow> Inl e
      | Inr s \<Rightarrow> (case ToStrings xs of Inl e \<Rightarrow> Inl e | Inr ss \<Rightarrow> Inr (s # ss)))"

text \<open>The key of \<open>connections[v]\<close>; \<open>None\<close> is \<open>undefined\<close>.\<close>

fun ToPropertyKey :: "json option \<Rightarrow> fault + string" where
  "ToPropertyKey None = Inr ''undefined''"
| "ToPropertyKey (Some v) = ToString v"

subsection \<open>The registry object\<close>

text \<open>
  \<open>const connections = {}\<close>: an ordinary object. Its own properties are kept as the list
  \<open>Object.entries\<close> returns: the keys that are array indices first, in ascending numeric
  order, then the other keys in the order they were created. Besides its own properties
  the object answers for the properties it inherits from \<open>Object.prototype\<close>.
\<close>

type_synonym registry = "(string \<times> connection) list"

definition object_prototype_names :: "string list" where
  "object_prototype_names =
     [''constructor'', ''__defineGetter__'', ''__defineSetter__'', ''hasOwnProperty'',
      ''__lookupGetter__'', ''__lookupSetter__'', ''isPrototypeOf'',
      ''propertyIsEnumerable'', ''toString'', ''valueOf'', ''__proto__'',
      ''toLocaleString'']"

text \<open>
  What \<open>connections[key]\<close> evaluates to: \<open>undefined\<close>, a connection stored by
  \<open>handleRegisterMessage\<close>, or a member of \<open>Object.prototype\<close> (a function, or for
  \<open>__proto__\<close> the prototype object itself: truthy, and never a connection).
\<close>

datatype property_value = Undefined | Connection connection | Inherited

definition get_property :: "registry \<Rightarrow> string \<Rightarrow> property_value" where
  "get_property r key =
     (case map_of r key of
        Some c \<Rightarrow> Connection c
      | None \<Rightarrow> if key \<in> set object_prototype_names then Inherited else Undefined)"

definition is_digit :: "char \<Rightarrow> bool" where
  "is_digit c = (48 \<le> (of_char c :: nat) \<and> (of_char c :: nat) \<le> 57)"

definition decimal :: "string \<Rightarrow> nat" where
  "decimal s = foldl (\<lambda>n c. 10 * n + ((of_char c :: nat) - 48)) 0 s"

text \<open>
  An array index is a key that is the canonical decimal text of an integer from
  \<open>0\<close> to \<open>2\<^sup>3\<^sup>2 - 2\<close>.
\<close>

definition array_index :: "string \<Rightarrow> nat option" where
  "array_index key =
     (if key \<noteq> [] \<and> list_all is_digit key \<and> (key = ''0'' \<or> hd key \<noteq> CHR ''0'')
         \<and> decimal key < 2 ^ 32 - 1
      then Some (decimal key) else None)"

fun insert_index :: "nat \<Rightarrow> string \<Rightarrow> connection \<Rightarrow> registry \<Rightarrow> registry" where
  "insert_index n key c [] = [(key, c)]"
| "insert_index n key c ((k, d) # r) =
     (case array_index k of
        Some m \<Rightarrow> if m < n then (k, d) # insert_index n key c r else (key, c) # (k, d) # r
      | None \<Rightarrow> (key, c) # (k, d) # r)"

text \<open>
  \<open>connections[key] = c\<close>: an existing own property keeps its place and takes the new
  value; a new one is created, at its numeric place when the key is an array index and
  at the end otherwise.
\<close>

definition set_property :: "registry \<Rightarrow> string \<Rightarrow> connection \<Rightarrow> registry" where
  "set_property r key c =
     (if key \<in> fst ` set r then map (\<lambda>(k, d). if k = key then (k, c) else (k, d)) r
      else case array_index key of
             Some n \<Rightarrow> insert_index n key c r
           | None \<Rightarrow> r @ [(key, c)])"

text \<open>\<open>delete connections[key]\<close>.\<close>

definition delete_property :: "registry \<Rightarrow> string \<Rightarrow> registry" where
  "delete_property r key = filter (\<lambda>(k, d). k \<noteq> key) r"

subsection \<open>The handlers\<close>

definition VALID_MESSAGE_TYPES :: "string list" where
  "VALID_MESSAGE_TYPES = [''register'', ''signal'']"

text \<open>\<open>VALID_MESSAGE_TYPES.includes(type)\<close>: only a string can be equal to a member.\<close>

fun array_includes :: "string list \<Rightarrow> json option \<Rightarrow> bool" where
  "array_includes xs (Some (JString t)) = (t \<in> set xs)"
| "array_includes xs _ = False"

text \<open>
  \<open>payload.id.slice(0, 5)\<close>: reading \<open>slice\<close> of \<open>undefined\<close> or \<open>null\<close> raises; a string
  and an array have the method and give their first five elements; a boolean and a
  number have no \<open>slice\<close>, and an object parsed from JSON has at most a property
  \<open>slice\<close> that is not a function, so the call raises.
\<close>

fun slice_0_5 :: "json option \<Rightarrow> fault + json" where
  "slice_0_5 (Some (JString s)) = Inr (JString (take 5 s))"
| "slice_0_5 (Some (JArray xs)) = Inr (JArray (take 5 xs))"
| "slice_0_5 _ = Inl TypeError"

definition handleRegisterMessage ::
  "connection \<Rightarrow> json \<Rightarrow> registry \<Rightarrow> fault + registry \<times> effect list" where
  "handleRegisterMessage connection payload connections =
     (case slice_0_5 (get_prop payload ''id'') of
        Inl e \<Rightarrow> Inl e
      | Inr ident \<Rightarrow>
          (case ToString ident of
             Inl e \<Rightarrow> Inl e
           | Inr key \<Rightarrow>
               if get_property connections key \<noteq> Undefined
               then Inr (connections, [CloseCall connection])
               else Inr (set_property connections key connection, [])))"

definition error_response :: "string \<Rightarrow> json" where
  "error_response target =
     JObject [(''type'', JString ''error''),
              (''message'', JString (''Connection '' @ target @ '' unknown''))]"

definition handleSignalMessage ::
  "connection \<Rightarrow> json \<Rightarrow> registry \<Rightarrow> fault + registry \<times> effect list" where
  "handleSignalMessage connection payload connections =
     (case ToPropertyKey (get_prop payload ''target'') of
        Inl e \<Rightarrow> Inl e
      | Inr target \<Rightarrow>
          (case ToPropertyKey (get_prop payload ''source'') of
             Inl e \<Rightarrow> Inl e
           | Inr source \<Rightarrow>
               if get_property connections source \<noteq> Connection connection
               then Inr (connections, [CloseCall connection])
               else (case get_property connections target of
                       Undefined \<Rightarrow>
                         Inr (connections, [SendUTF connection (error_response target)])
                     | Connection targetConnection \<Rightarrow>
                         Inr (connections, [SendUTF targetConnection payload])
                     | Inherited \<Rightarrow> Inl TypeError)))"

fun onMessage ::
  "connection \<Rightarrow> message \<Rightarrow> registry \<Rightarrow> fault + registry \<times> effect list" where
  "onMessage connection Binary connections = Inr (connections, [])"
| "onMessage connection (Utf8 Unparseable) connections = Inl SyntaxError"
| "onMessage connection (Utf8 (Parses v)) connections =
     (if v = JNull then Inl TypeError
      else if \<not> array_includes VALID_MESSAGE_TYPES (get_prop v ''type'') then Inr (connections, [])
      else (case get_prop v ''payload'' of
              None \<Rightarrow> Inr (connections, [])
            | Some payload \<Rightarrow>
                if \<not> truthy payload then Inr (connections, [])
                else if get_prop v ''type'' = Some (JString ''register'')
                then handleRegisterMessage connection payload connections
                else handleSignalMessage connection payload connections))"

text \<open>
  \<open>getIdFromConnection\<close>: the key of the first entry whose value is the connection.
  When \<open>find\<close> finds none it returns \<open>undefined\<close>, and destructuring \<open>[id]\<close> from it
  raises a \<open>TypeError\<close>.
\<close>

definition getIdFromConnection :: "connection \<Rightarrow> registry \<Rightarrow> fault + string" where
  "getIdFromConnection connection connections =
     (case find (\<lambda>(k, conn). conn = connection) connections of
        None \<Rightarrow> Inl TypeError
      | Some (ident, conn) \<Rightarrow> Inr ident)"

definition onClose :: "connection \<Rightarrow> registry \<Rightarrow> fault + registry \<times> effect list" where
  "onClose connection connections =
     (case getIdFromConnection connection connections of
        Inl e \<Rightarrow> Inl e
      | Inr ident \<Rightarrow> Inr (delete_property connections ident, []))"

definition onError :: "connection \<Rightarrow> registry \<Rightarrow> fault + registry \<times> effect list" where
  "onError connection connections =
     (case getIdFromConnection connection connections of
        Inl e \<Rightarrow> Inl e
      | Inr ident \<Rightarrow> Inr (connections, []))"

subsection \<open>Events\<close>

text \<open>
  Every accepted connection gets the three handlers (\<open>connection.on('message', onMessage)\<close>
  and so on), called with the connection as \<open>this\<close>. The reason code, the description
  and the error object an event carries are only logged. A run handles events one after
  the other, starting from a registry, and ends at the first exception: nothing catches
  it.
\<close>

datatype event =
    MessageEvent connection message
  | CloseEvent connection
  | ErrorEvent connection

fun emit :: "event \<Rightarrow> registry \<Rightarrow> fault + registry \<times> effect list" where
  "emit (MessageEvent c m) r = onMessage c m r"
| "emit (CloseEvent c) r = onClose c r"
| "emit (ErrorEvent c) r = onError c r"

fun run :: "event list \<Rightarrow> registry \<Rightarrow> fault + registry \<times> effect list" where
  "run [] r = Inr (r, [])"
| "run (e # es) r =
     (case emit e r of
        Inl f \<Rightarrow> Inl f
      | Inr (r', out) \<Rightarrow>
          (case run es r' of
             Inl f \<Rightarrow> Inl f
           | Inr (r'', out') \<Rightarrow> Inr (r'', out @ out')))"

text \<open>The envelopes a client sends, as \<open>JSON.parse\<close> returns them.\<close>

definition envelope :: "string \<Rightarrow> json \<Rightarrow> message" where
  "envelope ty payload = Utf8 (Parses (JObject [(''type'', JString ty), (''payload'', payload)]))"

definition register_message :: "string \<Rightarrow> message" where
  "register_message ident = envelope ''register'' (JObject [(''id'', JString ident)])"

section \<open>Properties of the registry operations\<close>

lemma short_key_not_inherited: "length key \<le> 5 \<Longrightarrow> key \<notin> set object_prototype_names"
  by (auto simp: object_prototype_names_def)

lemma get_property_own: "map_of r key = Some c \<Longrightarrow> get_property r key = Connection c"
  by (simp add: get_property_def)

lemma get_property_Undefined_iff:
  "get_property r key = Undefined \<longleftrightarrow>
     key \<notin> fst ` set r \<and> key \<notin> set object_prototype_names"
proof (cases "map_of r key")
  case None
  then have "key \<notin> fst ` set r" by (simp add: map_of_eq_None_iff)
  with None show ?thesis by (simp add: get_property_def)
next
  case (Some c)
  then have "key \<in> fst ` set r" by (metis map_of_eq_None_iff option.distinct(1))
  with Some show ?thesis by (simp add: get_property_def)
qed

lemma get_property_key: "key \<in> fst ` set r \<Longrightarrow> get_property r key \<noteq> Undefined"
  by (simp add: get_property_Undefined_iff)

lemma set_insert_index: "set (insert_index n key c r) = insert (key, c) (set r)"
  by (induction r) (auto split: option.splits if_splits)

lemma distinct_insert_index:
  "key \<notin> fst ` set r \<Longrightarrow> distinct (map fst r) \<Longrightarrow>
   distinct (map fst (insert_index n key c r))"
  by (induction r) (auto simp: set_insert_index split: option.splits)

lemma set_set_property_new:
  "key \<notin> fst ` set r \<Longrightarrow> set (set_property r key c) = insert (key, c) (set r)"
  by (auto simp: set_property_def set_insert_index split: option.splits)

lemma distinct_set_property_new:
  "key \<notin> fst ` set r \<Longrightarrow> distinct (map fst r) \<Longrightarrow>
   distinct (map fst (set_property r key c))"
  by (auto simp: set_property_def distinct_insert_index split: option.splits)

lemma map_of_insert_index:
  "key \<notin> fst ` set r \<Longrightarrow> map_of (insert_index n key c r) key = Some c"
  by (induction r) (auto split: option.splits)

lemma map_of_set_property_new:
  "key \<notin> fst ` set r \<Longrightarrow> map_of (set_property r key c) key = Some c"
  by (auto simp: set_property_def map_of_insert_index map_add_Some_iff map_of_eq_None_iff
      split: option.splits)

lemma distinct_delete_property:
  "distinct (map fst r) \<Longrightarrow> distinct (map fst (delete_property r key))"
  by (simp add: delete_property_def distinct_map_filter)

lemma keys_delete_property: "fst ` set (delete_property r key) = fst ` set r - {key}"
  by (auto simp: delete_property_def)

lemma find_connection_registered:
  "(i, c) \<in> set r \<Longrightarrow>
   \<exists>j. find (\<lambda>(k, conn). conn = c) r = Some (j, c) \<and> (j, c) \<in> set r"
  by (induction r) auto

lemma getIdFromConnection_registered:
  assumes "(i, c) \<in> set r"
  shows "\<exists>j. getIdFromConnection c r = Inr j \<and> (j, c) \<in> set r"
  using find_connection_registered [OF assms] by (auto simp: getIdFromConnection_def)

lemma getIdFromConnection_unregistered:
  "c \<notin> snd ` set r \<Longrightarrow> getIdFromConnection c r = Inl TypeError"
  by (induction r) (auto simp: getIdFromConnection_def)

section \<open>Properties of the handlers\<close>

lemma get_prop_Some_truthy: "get_prop p name = Some x \<Longrightarrow> truthy p"
  by (cases p) auto

lemma get_prop_Some_not_null: "get_prop p name = Some x \<Longrightarrow> p \<noteq> JNull"
  by (cases p) auto

text \<open>The dispatch of \<open>onMessage\<close> for the two recognised types.\<close>

lemma onMessage_register:
  assumes "get_prop v ''type'' = Some (JString ''register'')"
    and "get_prop v ''payload'' = Some payload"
    and "truthy payload"
  shows "onMessage conn (Utf8 (Parses v)) r = handleRegisterMessage conn payload r"
  using assms get_prop_Some_not_null [OF assms(1)]
  by (simp add: VALID_MESSAGE_TYPES_def)

lemma onMessage_signal:
  assumes "get_prop v ''type'' = Some (JString ''signal'')"
    and "get_prop v ''payload'' = Some payload"
    and "truthy payload"
  shows "onMessage conn (Utf8 (Parses v)) r = handleSignalMessage conn payload r"
  using assms get_prop_Some_not_null [OF assms(1)]
  by (simp add: VALID_MESSAGE_TYPES_def)

text \<open>
  A frame whose type is not recognised, or whose payload is missing or falsy, is dropped,
  provided the text parses to something other than \<open>null\<close>.
\<close>

lemma onMessage_unrecognised_type:
  "v \<noteq> JNull \<Longrightarrow> \<not> array_includes VALID_MESSAGE_TYPES (get_prop v ''type'') \<Longrightarrow>
   onMessage conn (Utf8 (Parses v)) r = Inr (r, [])"
  by simp

lemma onMessage_no_payload:
  "v \<noteq> JNull \<Longrightarrow> get_prop v ''payload'' = None \<Longrightarrow>
   onMessage conn (Utf8 (Parses v)) r = Inr (r, [])"
  by simp

lemma onMessage_falsy_payload:
  "v \<noteq> JNull \<Longrightarrow> get_prop v ''payload'' = Some p \<Longrightarrow> \<not> truthy p \<Longrightarrow>
   onMessage conn (Utf8 (Parses v)) r = Inr (r, [])"
  by simp

lemma handleRegisterMessage_collision:
  assumes "get_prop payload ''id'' = Some (JString s)" and "take 5 s \<in> fst ` set r"
  shows "handleRegisterMessage conn payload r = Inr (r, [CloseCall conn])"
  using assms by (simp add: handleRegisterMessage_def get_property_key)

lemma handleRegisterMessage_success:
  assumes "get_prop payload ''id'' = Some (JString s)" and "take 5 s \<notin> fst ` set r"
  shows "handleRegisterMessage conn payload r = Inr (set_property r (take 5 s) conn, [])"
proof -
  have "take 5 s \<notin> set object_prototype_names"
    by (rule short_key_not_inherited) simp
  with assms(2) have "get_property r (take 5 s) = Undefined"
    by (simp add: get_property_Undefined_iff)
  with assms(1) show ?thesis by (simp add: handleRegisterMessage_def)
qed

text \<open>No handler ever stores a second connection under a key.\<close>

lemma handleRegisterMessage_distinct:
  "handleRegisterMessage c p r = Inr (r', out) \<Longrightarrow> distinct (map fst r) \<Longrightarrow>
   distinct (map fst r')"
  by (auto simp: handleRegisterMessage_def get_property_Undefined_iff distinct_set_property_new
      split: sum.splits if_splits)

lemma handleSignalMessage_registry:
  "handleSignalMessage c p r = Inr (r', out) \<Longrightarrow> r' = r"
  by (auto simp: handleSignalMessage_def split: sum.splits if_splits property_value.splits)

lemma onMessage_distinct:
  "onMessage c m r = Inr (r', out) \<Longrightarrow> distinct (map fst r) \<Longrightarrow> distinct (map fst r')"
  by (induction c m r rule: onMessage.induct)
     (auto split: if_splits option.splits
        dest: handleRegisterMessage_distinct handleSignalMessage_registry)

lemma onClose_distinct:
  "onClose c r = Inr (r', out) \<Longrightarrow> distinct (map fst r) \<Longrightarrow> distinct (map fst r')"
  by (auto simp: onClose_def distinct_delete_property split: sum.splits)

lemma onError_registry: "onError c r = Inr (r', out) \<Longrightarrow> r' = r"
  by (auto simp: onError_def split: sum.splits)

lemma emit_distinct:
  "emit e r = Inr (r', out) \<Longrightarrow> distinct (map fst r) \<Longrightarrow> distinct (map fst r')"
  by (cases e) (auto dest: onMessage_distinct onClose_distinct onError_registry)

lemma run_distinct:
  "run es r = Inr (r', out) \<Longrightarrow> distinct (map fst r) \<Longrightarrow> distinct (map fst r')"
proof (induction es arbitrary: r out)
  case Nil
  then show ?case by simp
next
  case (Cons e es)
  from Cons.prems(1) obtain r1 out1 out2 where
    step: "emit e r = Inr (r1, out1)" and rest: "run es r1 = Inr (r', out2)"
    by (auto split: sum.splits prod.splits)
  from emit_distinct [OF step Cons.prems(2)] have "distinct (map fst r1)" .
  with Cons.IH [OF rest] show ?case .
qed

section \<open>Registration\<close>

text \<open>
  Claim C1. In every registry that a run of events from the empty registry reaches, an
  identifier is bound to at most one connection. And in such a registry, a register
  envelope whose identifier \<open>s\<close>, cut to its first five code units, is already a key
  makes \<open>onMessage\<close> call \<open>close()\<close> on the sending connection and nothing else: no
  \<open>sendUTF\<close> on any connection, and the registry, with the entry of the connection that
  holds the key, is the one before.
\<close>

theorem registration_unique_and_collision_closes:
  assumes "run es [] = Inr (r, out)"
  shows "(\<forall>k c d. (k, c) \<in> set r \<and> (k, d) \<in> set r \<longrightarrow> c = d) \<and>
         (\<forall>conn v payload s.
            get_prop v ''type'' = Some (JString ''register'') \<and>
            get_prop v ''payload'' = Some payload \<and>
            get_prop payload ''id'' = Some (JString s) \<and>
            take 5 s \<in> fst ` set r \<longrightarrow>
            onMessage conn (Utf8 (Parses v)) r = Inr (r, [CloseCall conn]))"
proof (intro conjI allI impI)
  have keys: "distinct (map fst r)"
    using run_distinct [OF assms] by simp
  fix k c d
  assume "(k, c) \<in> set r \<and> (k, d) \<in> set r"
  with keys show "c = d" by (auto dest: eq_key_imp_eq_value)
next
  fix conn v payload s
  assume h: "get_prop v ''type'' = Some (JString ''register'') \<and>
             get_prop v ''payload'' = Some payload \<and>
             get_prop payload ''id'' = Some (JString s) \<and>
             take 5 s \<in> fst ` set r"
  then have "truthy payload" by (auto dest: get_prop_Some_truthy)
  with h have "onMessage conn (Utf8 (Parses v)) r = handleRegisterMessage conn payload r"
    by (intro onMessage_register) simp_all
  with h show "onMessage conn (Utf8 (Parses v)) r = Inr (r, [CloseCall conn])"
    by (simp add: handleRegisterMessage_collision)
qed

text \<open>
  Connection 1 registers as \<open>alice\<close>; connection 2 then asks for \<open>alice-in-chains\<close>,
  which is cut to \<open>alice\<close>, and is closed.
\<close>

theorem registration_unique_and_collision_closes_witness:
  "run [MessageEvent 1 (register_message ''alice'')] [] = Inr ([(''alice'', 1)], []) \<and>
   onMessage 2 (register_message ''alice-in-chains'') [(''alice'', 1)]
     = Inr ([(''alice'', 1)], [CloseCall 2])"
proof -
  let ?p = "JObject [(''id'', JString ''alice-in-chains'')]"
  let ?v = "JObject [(''type'', JString ''register''), (''payload'', ?p)]"
  have r: "run [MessageEvent 1 (register_message ''alice'')] [] = Inr ([(''alice'', 1)], [])"
    by (simp add: register_message_def envelope_def VALID_MESSAGE_TYPES_def
        handleRegisterMessage_def get_property_def object_prototype_names_def
        set_property_def array_index_def is_digit_def)
  from registration_unique_and_collision_closes [OF r] have
    "get_prop ?v ''type'' = Some (JString ''register'') \<and>
     get_prop ?v ''payload'' = Some ?p \<and>
     get_prop ?p ''id'' = Some (JString ''alice-in-chains'') \<and>
     take 5 ''alice-in-chains'' \<in> fst ` set [(''alice'', 1::nat)] \<longrightarrow>
     onMessage 2 (Utf8 (Parses ?v)) [(''alice'', 1)] = Inr ([(''alice'', 1)], [CloseCall 2])"
    by blast
  then have "onMessage 2 (register_message ''alice-in-chains'') [(''alice'', 1)]
      = Inr ([(''alice'', 1)], [CloseCall 2])"
    by (simp add: register_message_def envelope_def)
  with r show ?thesis by simp
qed

text \<open>
  Claim C10. A register envelope with an identifier \<open>s\<close> of more than five code units,
  whose five-unit prefix is free, binds the sender under exactly that prefix; a register
  envelope that any connection \<open>d\<close> then sends with the prefix itself as identifier is a
  collision: \<open>d\<close> is closed and the registry stays as it is.
\<close>

theorem truncated_identifier_binds_prefix:
  assumes "get_prop v ''type'' = Some (JString ''register'')"
    and "get_prop v ''payload'' = Some payload"
    and "get_prop payload ''id'' = Some (JString s)"
    and "5 < length s"
    and "take 5 s \<notin> fst ` set r"
    and "get_prop w ''type'' = Some (JString ''register'')"
    and "get_prop w ''payload'' = Some q"
    and "get_prop q ''id'' = Some (JString (take 5 s))"
  shows "onMessage c (Utf8 (Parses v)) r = Inr (set_property r (take 5 s) c, []) \<and>
         get_property (set_property r (take 5 s) c) (take 5 s) = Connection c \<and>
         length (take 5 s) = 5 \<and>
         onMessage d (Utf8 (Parses w)) (set_property r (take 5 s) c)
           = Inr (set_property r (take 5 s) c, [CloseCall d])"
proof (intro conjI)
  have "truthy payload" using assms(3) by (rule get_prop_Some_truthy)
  with assms(1,2) have "onMessage c (Utf8 (Parses v)) r = handleRegisterMessage c payload r"
    by (intro onMessage_register)
  with assms(3,5) show "onMessage c (Utf8 (Parses v)) r = Inr (set_property r (take 5 s) c, [])"
    by (simp add: handleRegisterMessage_success)
  have bound: "map_of (set_property r (take 5 s) c) (take 5 s) = Some c"
    using assms(5) by (rule map_of_set_property_new)
  then show "get_property (set_property r (take 5 s) c) (take 5 s) = Connection c"
    by (rule get_property_own)
  show "length (take 5 s) = 5" using assms(4) by simp
  have "truthy q" using assms(8) by (rule get_prop_Some_truthy)
  with assms(6,7) have "onMessage d (Utf8 (Parses w)) (set_property r (take 5 s) c)
      = handleRegisterMessage d q (set_property r (take 5 s) c)"
    by (intro onMessage_register)
  moreover have "take 5 (take 5 s) \<in> fst ` set (set_property r (take 5 s) c)"
    using assms(5) by (simp add: set_set_property_new)
  ultimately show "onMessage d (Utf8 (Parses w)) (set_property r (take 5 s) c)
      = Inr (set_property r (take 5 s) c, [CloseCall d])"
    using assms(8) by (simp add: handleRegisterMessage_collision)
qed

text \<open>
  Connection 1 asks for \<open>alexander\<close> and is bound as \<open>alexa\<close>; connection 3 then asks for
  \<open>alexa\<close> and is closed.
\<close>

theorem truncated_identifier_binds_prefix_witness:
  "onMessage 1 (register_message ''alexander'') [(''bob'', 2)]
     = Inr ([(''bob'', 2), (''alexa'', 1)], []) \<and>
   onMessage 3 (register_message ''alexa'') [(''bob'', 2), (''alexa'', 1)]
     = Inr ([(''bob'', 2), (''alexa'', 1)], [CloseCall 3])"
proof -
  let ?p = "JObject [(''id'', JString ''alexander'')]"
  let ?v = "JObject [(''type'', JString ''register''), (''payload'', ?p)]"
  let ?q = "JObject [(''id'', JString ''alexa'')]"
  let ?w = "JObject [(''type'', JString ''register''), (''payload'', ?q)]"
  have reg: "set_property [(''bob'', 2)] (take 5 ''alexander'') 1 = [(''bob'', 2), (''alexa'', 1)]"
    by (simp add: set_property_def array_index_def is_digit_def)
  have "onMessage 1 (Utf8 (Parses ?v)) [(''bob'', 2)]
          = Inr (set_property [(''bob'', 2)] (take 5 ''alexander'') 1, []) \<and>
        get_property (set_property [(''bob'', 2)] (take 5 ''alexander'') 1) (take 5 ''alexander'')
          = Connection 1 \<and>
        length (take 5 ''alexander'') = 5 \<and>
        onMessage 3 (Utf8 (Parses ?w)) (set_property [(''bob'', 2)] (take 5 ''alexander'') 1)
          = Inr (set_property [(''bob'', 2)] (take 5 ''alexander'') 1, [CloseCall 3])"
    by (rule truncated_identifier_binds_prefix [where q = ?q and payload = ?p]) simp_all
  then show ?thesis
    unfolding reg by (simp only: register_message_def envelope_def)
qed

section \<open>Signals\<close>

text \<open>
  Claim C2. When \<open>s\<close> is bound to connection \<open>a\<close> and \<open>t\<close> to connection \<open>b\<close>, a signal
  envelope from \<open>a\<close> with source \<open>s\<close> and target \<open>t\<close> makes \<open>onMessage\<close> do exactly one
  thing: \<open>b.sendUTF(JSON.stringify(payload))\<close>, with the whole payload as it was parsed.
  Nothing is sent on any other connection, no connection is closed, and the registry is
  the one before.
\<close>

theorem signal_forwarded_to_target_only:
  assumes "map_of r s = Some a" and "map_of r t = Some b"
    and "get_prop v ''type'' = Some (JString ''signal'')"
    and "get_prop v ''payload'' = Some payload"
    and "get_prop payload ''source'' = Some (JString s)"
    and "get_prop payload ''target'' = Some (JString t)"
  shows "onMessage a (Utf8 (Parses v)) r = Inr (r, [SendUTF b payload])"
proof -
  have "truthy payload" using assms(5) by (rule get_prop_Some_truthy)
  then have "onMessage a (Utf8 (Parses v)) r = handleSignalMessage a payload r"
    using assms(3,4) by (intro onMessage_signal)
  also have "\<dots> = Inr (r, [SendUTF b payload])"
    using assms(1,2,5,6) by (simp add: handleSignalMessage_def get_property_own)
  finally show ?thesis .
qed

theorem signal_forwarded_to_target_only_witness:
  "onMessage 1
     (envelope ''signal''
        (JObject [(''source'', JString ''alice''), (''target'', JString ''bob''),
                  (''type'', JString ''offer''), (''sdp'', JString ''v=0'')]))
     [(''alice'', 1), (''bob'', 2), (''carol'', 3)]
   = Inr ([(''alice'', 1), (''bob'', 2), (''carol'', 3)],
          [SendUTF 2
             (JObject [(''source'', JString ''alice''), (''target'', JString ''bob''),
                       (''type'', JString ''offer''), (''sdp'', JString ''v=0'')])])"
  using signal_forwarded_to_target_only
    [of "[(''alice'', 1), (''bob'', 2), (''carol'', 3)]" "''alice''" 1 "''bob''" 2
      "JObject [(''type'', JString ''signal''),
         (''payload'', JObject [(''source'', JString ''alice''), (''target'', JString ''bob''),
            (''type'', JString ''offer''), (''sdp'', JString ''v=0'')])]"
      "JObject [(''source'', JString ''alice''), (''target'', JString ''bob''),
         (''type'', JString ''offer''), (''sdp'', JString ''v=0'')]"]
  by (simp add: envelope_def)



text \<open>
  A signal that passes the identity check and names a target that is neither bound nor
  the name of a member of \<open>Object.prototype\<close> is answered with one error response on the
  sender's own connection, which stays open.
\<close>

lemma signal_unknown_target_answered:
  assumes "map_of r s = Some c"
    and "t \<notin> fst ` set r" and "t \<notin> set object_prototype_names"
    and "get_prop v ''type'' = Some (JString ''signal'')"
    and "get_prop v ''payload'' = Some payload"
    and "get_prop payload ''source'' = Some (JString s)"
    and "get_prop payload ''target'' = Some (JString t)"
  shows "onMessage c (Utf8 (Parses v)) r = Inr (r, [SendUTF c (error_response t)])"
proof -
  have "truthy payload" using assms(6) by (rule get_prop_Some_truthy)
  then have "onMessage c (Utf8 (Parses v)) r = handleSignalMessage c payload r"
    using assms(4,5) by (intro onMessage_signal)
  moreover have "get_property r t = Undefined"
    using assms(2,3) by (simp add: get_property_Undefined_iff)
  ultimately show ?thesis
    using assms(1,6,7) by (simp add: handleSignalMessage_def get_property_own)
qed

text \<open>
  Claim C4 does not hold of the code. \<open>connections\<close> is an ordinary object, so
  \<open>connections[target]\<close> also finds what the object inherits. Connection 1 registers as
  \<open>alice\<close> and signals to the target \<open>constructor\<close>, which nobody registered: the lookup
  gives the function \<open>Object\<close>, the test \<open>!targetConnection\<close> fails, and
  \<open>targetConnection.sendUTF\<close> is not a function. The handler raises a \<open>TypeError\<close>
  where the claim has it send an error envelope.
\<close>

theorem signal_to_inherited_name_raises:
  "run [MessageEvent 1 (register_message ''alice''),
        MessageEvent 1 (envelope ''signal''
          (JObject [(''source'', JString ''alice''), (''target'', JString ''constructor'')]))] []
   = Inl TypeError"
  by code_simp

section \<open>Malformed frames\<close>

text \<open>
  Claim C7 does not hold of the code. A text that is not JSON makes \<open>JSON.parse\<close> raise a
  \<open>SyntaxError\<close>; the text \<open>null\<close> cannot be destructured; a register payload with
  no \<open>id\<close> makes \<open>payload.id.slice\<close> raise a \<open>TypeError\<close>. Nothing catches them. And a
  register payload whose \<open>id\<close> is an array is not dropped: the array has a \<open>slice\<close>
  too, and the sender is bound under the joined elements, here nine code units long.
\<close>

theorem malformed_frame_raises:
  "onMessage 1 (Utf8 Unparseable) [] = Inl SyntaxError \<and>
   onMessage 1 (Utf8 (Parses JNull)) [] = Inl TypeError \<and>
   onMessage 1 (envelope ''register'' (JObject [(''name'', JString ''alice'')])) []
     = Inl TypeError \<and>
   onMessage 1 (envelope ''register'' (JObject [(''id'', JArray [JString ''alexander''])])) []
     = Inr ([(''alexander'', 1)], [])"
  by code_simp

section \<open>Close and error\<close>

lemma onClose_unregistered: "c \<notin> snd ` set r \<Longrightarrow> onClose c r = Inl TypeError"
  by (simp add: onClose_def getIdFromConnection_unregistered)

lemma onError_unregistered: "c \<notin> snd ` set r \<Longrightarrow> onError c r = Inl TypeError"
  by (simp add: onError_def getIdFromConnection_unregistered)

text \<open>
  When a connection is bound under one identifier only, the close handler removes that
  identifier, and a register envelope that asks for it afterwards succeeds.
\<close>

lemma onClose_sole_identifier:
  assumes "distinct (map fst r)" and "(i, c) \<in> set r"
    and "\<forall>j. (j, c) \<in> set r \<longrightarrow> j = i"
  shows "onClose c r = Inr (delete_property r i, [])"
    and "i \<notin> fst ` set (delete_property r i)"
proof -
  from getIdFromConnection_registered [OF assms(2)] obtain j
    where "getIdFromConnection c r = Inr j" and "(j, c) \<in> set r" by blast
  with assms(3) have "getIdFromConnection c r = Inr i" by blast
  then show "onClose c r = Inr (delete_property r i, [])" by (simp add: onClose_def)
  show "i \<notin> fst ` set (delete_property r i)" by (simp add: keys_delete_property)
qed

lemma register_after_close_succeeds:
  assumes "distinct (map fst r)" and "(i, c) \<in> set r"
    and "\<forall>j. (j, c) \<in> set r \<longrightarrow> j = i"
    and "length i \<le> 5"
    and "get_prop v ''type'' = Some (JString ''register'')"
    and "get_prop v ''payload'' = Some payload"
    and "get_prop payload ''id'' = Some (JString i)"
  shows "onMessage d (Utf8 (Parses v)) (delete_property r i)
           = Inr (set_property (delete_property r i) i d, [])"
proof -
  have "truthy payload" using assms(7) by (rule get_prop_Some_truthy)
  with assms(5,6) have "onMessage d (Utf8 (Parses v)) (delete_property r i)
      = handleRegisterMessage d payload (delete_property r i)"
    by (intro onMessage_register)
  moreover have "take 5 i \<notin> fst ` set (delete_property r i)"
    using assms(4) by (simp add: keys_delete_property)
  ultimately show ?thesis
    using assms(4,7) handleRegisterMessage_success [of payload i "delete_property r i" d]
    by simp
qed

text \<open>
  Claim C5 does not hold of the code. Connection 1 registers as \<open>ann\<close> and then as
  \<open>bea\<close>; both succeed, since \<open>handleRegisterMessage\<close> only looks at the key. When the
  connection closes, \<open>getIdFromConnection\<close> finds its first entry, \<open>ann\<close>, and only that
  one is deleted. \<open>bea\<close> stays bound to the closed connection, and connection 2, asking
  for \<open>bea\<close> afterwards, is closed as a duplicate.
\<close>

theorem close_removes_first_identifier_only:
  "run [MessageEvent 1 (register_message ''ann''), MessageEvent 1 (register_message ''bea''),
        CloseEvent 1, MessageEvent 2 (register_message ''bea'')] []
   = Inr ([(''bea'', 1)], [CloseCall 2])"
  by code_simp

text \<open>
  Claim C6 does not hold of the code, for the same reason: after connection 1 has
  registered twice and closed, the registry still holds an entry for it.
\<close>

theorem closed_connection_stays_registered:
  "run [MessageEvent 1 (register_message ''alice''), MessageEvent 1 (register_message ''bob''),
        CloseEvent 1] []
   = Inr ([(''bob'', 1)], [])"
  by code_simp

text \<open>
  Claim C8 does not hold of the code. For a connection with no entry,
  \<open>getIdFromConnection\<close> destructures the \<open>undefined\<close> that \<open>find\<close> returns, and the
  close handler raises a \<open>TypeError\<close>: on the empty registry, beside other connections'
  entries, and for a connection the server closed itself as a duplicate. The registry is
  not touched, but the fault is raised.
\<close>

theorem close_of_unregistered_raises:
  "run [CloseEvent 1] [] = Inl TypeError \<and>
   onClose 2 [(''alice'', 1)] = Inl TypeError \<and>
   run [MessageEvent 1 (register_message ''alice''), MessageEvent 2 (register_message ''alice'')] []
     = Inr ([(''alice'', 1)], [CloseCall 2]) \<and>
   run [MessageEvent 1 (register_message ''alice''), MessageEvent 2 (register_message ''alice''),
        CloseEvent 2] []
     = Inl TypeError"
  by code_simp

text \<open>
  Claim C9 does not hold of the code as it is stated: the error handler resolves the
  identifier for its log line and deletes nothing. After an error on connection 1 the
  registry still binds \<open>alice\<close> to it.
\<close>

theorem error_keeps_identifier_bound:
  "onError 1 [(''alice'', 1)] = Inr ([(''alice'', 1)], []) \<and>
   get_property [(''alice'', 1)] ''alice'' = Connection 1"
  by code_simp

text \<open>
  The keys a run stores are never names of members of \<open>Object.prototype\<close>: a key is
  only created where \<open>connections[key]\<close> was \<open>undefined\<close>.
\<close>

lemma handleRegisterMessage_own_keys:
  "handleRegisterMessage c p r = Inr (r', out) \<Longrightarrow>
   \<forall>p\<in>set r. fst p \<notin> set object_prototype_names \<Longrightarrow>
   \<forall>p\<in>set r'. fst p \<notin> set object_prototype_names"
  by (auto simp: handleRegisterMessage_def get_property_Undefined_iff set_set_property_new
      split: sum.splits if_splits)

lemma onMessage_own_keys:
  "onMessage c m r = Inr (r', out) \<Longrightarrow>
   \<forall>p\<in>set r. fst p \<notin> set object_prototype_names \<Longrightarrow>
   \<forall>p\<in>set r'. fst p \<notin> set object_prototype_names"
proof (induction c m r rule: onMessage.induct)
  case (3 connection v connections)
  then show ?case
    by (auto split: if_splits option.splits
        dest: handleRegisterMessage_own_keys handleSignalMessage_registry)
qed auto

lemma onClose_own_keys:
  "onClose c r = Inr (r', out) \<Longrightarrow>
   \<forall>p\<in>set r. fst p \<notin> set object_prototype_names \<Longrightarrow>
   \<forall>p\<in>set r'. fst p \<notin> set object_prototype_names"
  by (auto simp: onClose_def delete_property_def split: sum.splits)

lemma emit_own_keys:
  "emit e r = Inr (r', out) \<Longrightarrow>
   \<forall>p\<in>set r. fst p \<notin> set object_prototype_names \<Longrightarrow>
   \<forall>p\<in>set r'. fst p \<notin> set object_prototype_names"
  by (cases e) (auto dest: onMessage_own_keys onClose_own_keys onError_registry)

lemma run_own_keys:
  "run es r = Inr (r', out) \<Longrightarrow>
   \<forall>p\<in>set r. fst p \<notin> set object_prototype_names \<Longrightarrow>
   \<forall>p\<in>set r'. fst p \<notin> set object_prototype_names"
proof (induction es arbitrary: r out)
  case Nil
  then show ?case by simp
next
  case (Cons e es)
  from Cons.prems(1) obtain r1 out1 out2 where
    step: "emit e r = Inr (r1, out1)" and rest: "run es r1 = Inr (r', out2)"
    by (auto split: sum.splits prod.splits)
  from emit_own_keys [OF step Cons.prems(2)]
  have "\<forall>p\<in>set r1. fst p \<notin> set object_prototype_names" .
  with Cons.IH [OF rest] show ?case .
qed

lemma getIdFromConnection_bound:
  "getIdFromConnection c r = Inr i \<Longrightarrow> (i, c) \<in> set r"
  by (auto simp: getIdFromConnection_def find_Some_iff split: option.splits dest: nth_mem)

lemma set_delete_property_distinct:
  "distinct (map fst r) \<Longrightarrow> (i, c) \<in> set r \<Longrightarrow>
   set (delete_property r i) = set r - {(i, c)}"
  by (auto simp: delete_property_def dest: eq_key_imp_eq_value)

text \<open>
  Claim C9, amended. Take a registry that a run of events from the empty registry
  reaches, a connection \<open>c\<close> with an entry in it, and the identifier \<open>i\<close> that
  \<open>getIdFromConnection\<close> resolves for \<open>c\<close> (the key of its first entry). When \<open>c\<close>
  signals an error, the error handler raises nothing, calls nothing on any connection
  and leaves the registry as it is, so \<open>i\<close> is still bound to \<open>c\<close>. It is the close
  handler that removes the identifier: after it \<open>i\<close> is no key of the registry,
  \<open>connections[i]\<close> is \<open>undefined\<close>, and the registry has lost the entry of \<open>i\<close> and
  no other.
\<close>

theorem error_leaves_registry_close_removes:
  assumes "run es [] = Inr (r, out)" and "getIdFromConnection c r = Inr i"
  shows "get_property r i = Connection c \<and>
         onError c r = Inr (r, []) \<and>
         onClose c r = Inr (delete_property r i, []) \<and>
         i \<notin> fst ` set (delete_property r i) \<and>
         get_property (delete_property r i) i = Undefined \<and>
         set (delete_property r i) = set r - {(i, c)}"
proof (intro conjI)
  have keys: "distinct (map fst r)"
    using run_distinct [OF assms(1)] by simp
  have own: "\<forall>p\<in>set r. fst p \<notin> set object_prototype_names"
    using run_own_keys [OF assms(1)] by simp
  have bound: "(i, c) \<in> set r"
    using assms(2) by (rule getIdFromConnection_bound)
  with keys have "map_of r i = Some c" by simp
  then show "get_property r i = Connection c" by (rule get_property_own)
  show "onError c r = Inr (r, [])" using assms(2) by (simp add: onError_def)
  show "onClose c r = Inr (delete_property r i, [])" using assms(2) by (simp add: onClose_def)
  show gone: "i \<notin> fst ` set (delete_property r i)" by (simp add: keys_delete_property)
  from bound own have "i \<notin> set object_prototype_names" by force
  with gone show "get_property (delete_property r i) i = Undefined"
    by (simp add: get_property_Undefined_iff)
  show "set (delete_property r i) = set r - {(i, c)}"
    using keys bound by (rule set_delete_property_distinct)
qed

text \<open>
  Connections 1 and 2 register as \<open>alice\<close> and \<open>bob\<close>. An error on connection 1 changes
  nothing; its close removes \<open>alice\<close> and leaves \<open>bob\<close>.
\<close>

theorem error_leaves_registry_close_removes_witness:
  "run [MessageEvent 1 (register_message ''alice''), MessageEvent 2 (register_message ''bob'')] []
     = Inr ([(''alice'', 1), (''bob'', 2)], []) \<and>
   onError 1 [(''alice'', 1), (''bob'', 2)] = Inr ([(''alice'', 1), (''bob'', 2)], []) \<and>
   onClose 1 [(''alice'', 1), (''bob'', 2)] = Inr ([(''bob'', 2)], []) \<and>
   get_property [(''bob'', 2)] ''alice'' = Undefined"
proof -
  have r: "run [MessageEvent 1 (register_message ''alice''),
                MessageEvent 2 (register_message ''bob'')] []
             = Inr ([(''alice'', 1), (''bob'', 2)], [])"
    by code_simp
  have g: "getIdFromConnection 1 [(''alice'', 1), (''bob'', 2)] = Inr ''alice''"
    by (simp add: getIdFromConnection_def)
  have d: "delete_property [(''alice'', 1), (''bob'', 2)] ''alice'' = [(''bob'', 2)]"
    by (simp add: delete_property_def)
  from error_leaves_registry_close_removes [OF r g] r show ?thesis
    unfolding d by simp
qed

end
